theory Spec2Isabelle
  imports Main "HOL-Library.Sublist"
begin

section \<open>Strings and paths\<close>

text \<open>
  \<^verbatim>\<open>fabfile.py\<close> is a Fabric task file for a Windows checkout: it shells out to
  \<^verbatim>\<open>.bat\<close> scripts and to tools installed under \<^verbatim>\<open>C:\<close>. Two characters of
  its command lines cannot be written inside a HOL string literal, so they get names.
\<close>

definition backslash :: string where
  "backslash = [CHR 0x5C]"

definition dquote :: string where
  "dquote = [CHR 0x22]"

text \<open>
  \<^verbatim>\<open>os.path.join\<close> is the standard library's, here the Windows flavour. The model
  covers the arguments the script passes: a later component that starts with a
  separator replaces what came before, otherwise it is appended, after a backslash
  unless the path so far is empty or already ends with a separator. Drive letters
  and UNC prefixes in a later component are not modelled.
\<close>

definition is_sep :: "char \<Rightarrow> bool" where
  "is_sep c = (c = CHR 0x5C \<or> c = CHR ''/'')"

definition path_join :: "string \<Rightarrow> string \<Rightarrow> string" where
  "path_join a b =
     (if b \<noteq> [] \<and> is_sep (hd b) then b
      else if a \<noteq> [] \<and> \<not> is_sep (last a) then a @ backslash @ b
      else a @ b)"

definition path_joins :: "string \<Rightarrow> string list \<Rightarrow> string" where
  "path_joins a bs = foldl path_join a bs"

section \<open>Module-level settings (lines 17 to 26)\<close>

definition ms_build_path :: string where
  "ms_build_path = ''C:'' @ backslash @ ''Program Files (x86)'' @ backslash @ ''MSBuild''
     @ backslash @ ''14.0'' @ backslash @ ''Bin''"

definition nunit_path :: string where
  "nunit_path = ''C:'' @ backslash @ ''Program Files (x86)'' @ backslash @ ''NUnit.org''
     @ backslash @ ''nunit-console''"

definition nuget_path :: string where
  "nuget_path = ''C:'' @ backslash @ ''Program Files (x86)'' @ backslash @ ''NuGet''"

definition impl_projects :: "string list" where
  "impl_projects = [''MultiClientConsole'', ''ServerConsole'', ''OfficeConsole'',
     ''UaclServer'', ''UaclClient'', ''UaclUtils'']"

definition test_projects :: "string list" where
  "test_projects = [''TestServerConsole'', ''TestOfficeConsole'', ''TestUaclClient'',
     ''TestUaclUtils'']"

definition projects :: "string list" where
  "projects = impl_projects @ test_projects"

definition solution :: string where
  "solution = ''ua_utilities''"

section \<open>The outside world: shell commands and directory removal\<close>

text \<open>
  Every task acts on the outside world only through Fabric's \<^verbatim>\<open>local\<close> (run a shell
  command) and \<^verbatim>\<open>shutil.rmtree\<close>. An execution is modelled by the trace of these
  calls, in order. Whether a call succeeds is not up to the script: it is read from a
  \<open>world\<close>, which may answer differently depending on everything done so far.
\<close>

datatype event = Run string | Rmtree string

datatype error = SystemExit string | OSError string

record world =
  run_ok :: "event list \<Rightarrow> string \<Rightarrow> bool"
  rm_ok :: "event list \<Rightarrow> string \<Rightarrow> bool"

type_synonym task = "event list \<Rightarrow> event list \<times> (error + unit)"

text \<open>
  \<^verbatim>\<open>local(command)\<close> runs the command; with Fabric's default settings
  (\<^verbatim>\<open>env.warn_only\<close> false, which the script never changes) a non-zero exit status
  aborts, that is, raises \<^verbatim>\<open>SystemExit\<close>.
\<close>

definition local :: "world \<Rightarrow> string \<Rightarrow> task" where
  "local w command tr =
     (if run_ok w tr command then (tr @ [Run command], Inr ())
      else (tr @ [Run command], Inl (SystemExit command)))"

text \<open>
  \<^verbatim>\<open>shutil.rmtree(path, ignore_errors)\<close>: a removal that goes wrong (the directory is
  absent, for one) raises \<^verbatim>\<open>OSError\<close> unless \<^verbatim>\<open>ignore_errors\<close> is set.
\<close>

definition rmtree :: "world \<Rightarrow> string \<Rightarrow> bool \<Rightarrow> task" where
  "rmtree w path ignore_errors tr =
     (if rm_ok w tr path \<or> ignore_errors then (tr @ [Rmtree path], Inr ())
      else (tr @ [Rmtree path], Inl (OSError path)))"

text \<open>
  Statement sequencing: the second statement runs only if the first did not raise.
  \<open>try_except_pass\<close> is \<^verbatim>\<open>try: ... except: pass\<close>; the bare \<^verbatim>\<open>except\<close> catches
  every exception, \<^verbatim>\<open>SystemExit\<close> included.
\<close>

definition skip :: task where
  "skip tr = (tr, Inr ())"

definition and_then :: "task \<Rightarrow> task \<Rightarrow> task" where
  "and_then f g tr =
     (case f tr of
        (tr', Inl e) \<Rightarrow> (tr', Inl e)
      | (tr', Inr u) \<Rightarrow> g tr')"

definition try_except_pass :: "task \<Rightarrow> task" where
  "try_except_pass f tr = (case f tr of (tr', r) \<Rightarrow> (tr', Inr ()))"

section \<open>The tasks\<close>

text \<open>
  The command lines of \<^verbatim>\<open>start\<close>, \<^verbatim>\<open>stop\<close> and \<^verbatim>\<open>start_sc\<close> are named, since
  the properties below speak of them. In the Python literals \<^verbatim>\<open>\s\<close> is no escape
  sequence: the backslash stays.
\<close>

definition start_cmd :: string where
  "start_cmd = ''tools'' @ backslash @ ''start.bat''"

definition stop_cmd :: string where
  "stop_cmd = ''tools'' @ backslash @ ''stop.bat''"

definition start :: "world \<Rightarrow> task" where
  "start w = local w start_cmd"

definition start_sc_cmd :: string where
  "start_sc_cmd = ''tools'' @ backslash @ ''start_application.bat ServerConsole''"

definition start_sc :: "world \<Rightarrow> task" where
  "start_sc w = local w start_sc_cmd"

definition start_oc :: "world \<Rightarrow> task" where
  "start_oc w = local w (''tools'' @ backslash @ ''start_application.bat OfficeConsole'')"

definition start_mcc :: "world \<Rightarrow> task" where
  "start_mcc w =
     local w (''tools'' @ backslash @ ''start_application.bat MultiClientConsole'')"

definition stop :: "world \<Rightarrow> task" where
  "stop w = local w stop_cmd"

text \<open>
  \<^verbatim>\<open>ms_build(solution, target='Build', config=None, more='/m')\<close>. The lambda
  \<^verbatim>\<open>cmd_add\<close> reads the variable \<^verbatim>\<open>build_cmd\<close> at each call, so every call
  extends the command built so far; an empty (falsy) piece adds nothing. Callers
  that leave an argument out pass the default written in the signature.
\<close>

definition cmd_add :: "string \<Rightarrow> string \<Rightarrow> string" where
  "cmd_add build_cmd cmd = (if cmd \<noteq> [] then build_cmd @ '' '' @ cmd else build_cmd)"

definition ms_build :: "world \<Rightarrow> string \<Rightarrow> string \<Rightarrow> string option \<Rightarrow> string \<Rightarrow> task" where
  "ms_build w soln target config more_flags =
     (let exe = path_join ms_build_path ''MSBuild.exe'';
          build_cmd = dquote @ exe @ dquote;
          build_cmd = cmd_add build_cmd more_flags;
          build_cmd = cmd_add build_cmd (''/t:'' @ target);
          build_cmd = (case config of
                         None \<Rightarrow> build_cmd
                       | Some c \<Rightarrow> if c \<noteq> [] then cmd_add build_cmd (''/p:Configuration='' @ c)
                                  else build_cmd);
          build_cmd = cmd_add build_cmd (soln @ ''.sln'')
      in local w build_cmd)"

definition build :: "world \<Rightarrow> task" where
  "build w = ms_build w solution ''Build'' (Some ''Debug'') ''/m''"

definition release :: "world \<Rightarrow> task" where
  "release w = ms_build w solution ''Build'' (Some ''Release'') ''/m''"

text \<open>The two loops of \<^verbatim>\<open>clean\<close>: over the sub-folders of one project, and over the projects.\<close>

fun clean_dirs :: "world \<Rightarrow> string \<Rightarrow> string list \<Rightarrow> task" where
  "clean_dirs w p [] = skip"
| "clean_dirs w p (sf # sfs) = and_then (rmtree w (path_join p sf) True) (clean_dirs w p sfs)"

fun clean_loop :: "world \<Rightarrow> string list \<Rightarrow> task" where
  "clean_loop w [] = skip"
| "clean_loop w (p # ps) = and_then (clean_dirs w p [''obj'', ''bin'']) (clean_loop w ps)"

definition clean :: "world \<Rightarrow> task" where
  "clean w = and_then (ms_build w solution ''Clean'' None ''/m'') (clean_loop w projects)"

text \<open>
  \<^verbatim>\<open>update_packages\<close> (lines 120 to 124): \<open>restore_cmd\<close> is the command line the loop
  body formats for project \<open>p\<close>, \<open>pm\<close> being the path of the restore executable.
\<close>

definition restore_cmd :: "string \<Rightarrow> string \<Rightarrow> string" where
  "restore_cmd pm p =
     (let packages_config = path_join p ''packages.config''
      in dquote @ pm @ dquote @ '' install -OutputDirectory packages '' @ packages_config)"

fun update_packages_loop :: "world \<Rightarrow> string \<Rightarrow> string list \<Rightarrow> task" where
  "update_packages_loop w pm [] = skip"
| "update_packages_loop w pm (p # ps) =
     and_then (local w (restore_cmd pm p)) (update_packages_loop w pm ps)"

definition update_packages :: "world \<Rightarrow> task" where
  "update_packages w =
     (let pm_path = path_join nuget_path ''nuget.exe''
      in update_packages_loop w pm_path projects)"

definition update_env :: "world \<Rightarrow> task" where
  "update_env w = update_packages w"

definition rebuild :: "world \<Rightarrow> task" where
  "rebuild w = and_then (clean w) (and_then (update_env w) (build w))"

definition restart :: "world \<Rightarrow> task" where
  "restart w = and_then (stop w) (and_then (rebuild w) (start w))"

text \<open>
  \<^verbatim>\<open>test\<close> (lines 91 to 105): \<^verbatim>\<open>start_sc()\<close> stands before the \<^verbatim>\<open>try\<close>, the loop
  over the test projects inside it, \<^verbatim>\<open>stop()\<close> after it.
\<close>

definition test_impl :: "world \<Rightarrow> string \<Rightarrow> task" where
  "test_impl w path_to_dll =
     (let nunit = path_join nunit_path ''nunit3-console.exe''
      in local w (dquote @ nunit @ dquote @ '' '' @ path_to_dll @ ''.dll''))"

fun test_loop :: "world \<Rightarrow> string list \<Rightarrow> task" where
  "test_loop w [] = skip"
| "test_loop w (t # ts) =
     and_then
       (let path_to_test_lib = path_joins ''.'' [t, ''bin'', ''Debug'']
        in test_impl w (path_join path_to_test_lib t))
       (test_loop w ts)"

definition test :: "world \<Rightarrow> task" where
  "test w =
     and_then (start_sc w)
       (and_then (try_except_pass (test_loop w test_projects)) (stop w))"

section \<open>Loading the module (lines 10 to 26)\<close>

text \<open>
  The module body runs top to bottom when Fabric imports the file. Its global
  namespace maps names to values; \<^verbatim>\<open>from fabfile_local import *\<close> copies the public
  names (those without a leading underscore) of the local module into it, and an
  absent module raises \<^verbatim>\<open>ImportError\<close>, which is caught and passed over. The
  assignments of the settings follow the import. The names that
  \<^verbatim>\<open>from fabric.api import *\<close> brings in are left out: no setting is among them.
\<close>

datatype pyval = PyStr string | PyList "string list"

type_synonym namespace = "string \<Rightarrow> pyval option"

definition import_star :: "namespace \<Rightarrow> namespace \<Rightarrow> namespace" where
  "import_star m ns =
     (\<lambda>name. case m name of
               None \<Rightarrow> ns name
             | Some v \<Rightarrow> if name \<noteq> [] \<and> hd name = CHR ''_'' then ns name else Some v)"

definition py_add :: "pyval option \<Rightarrow> pyval option \<Rightarrow> pyval option" where
  "py_add a b =
     (case (a, b) of
        (Some (PyList xs), Some (PyList ys)) \<Rightarrow> Some (PyList (xs @ ys))
      | (Some (PyStr xs), Some (PyStr ys)) \<Rightarrow> Some (PyStr (xs @ ys))
      | _ \<Rightarrow> None)"

definition load_fabfile :: "namespace option \<Rightarrow> namespace" where
  "load_fabfile fabfile_local =
     (let ns = Map.empty;
          ns = (case fabfile_local of None \<Rightarrow> ns | Some m \<Rightarrow> import_star m ns);
          ns = ns(''ms_build_path'' \<mapsto> PyStr ms_build_path);
          ns = ns(''nunit_path'' \<mapsto> PyStr nunit_path);
          ns = ns(''nuget_path'' \<mapsto> PyStr nuget_path);
          ns = ns(''impl_projects'' \<mapsto> PyList impl_projects);
          ns = ns(''test_projects'' \<mapsto> PyList test_projects);
          ns = ns(''projects'' := py_add (ns ''impl_projects'') (ns ''test_projects''));
          ns = ns(''solution'' \<mapsto> PyStr solution)
      in ns)"

text \<open>A local module that sets the three tool paths to directories of its own.\<close>

definition local_override :: namespace where
  "local_override =
     [''ms_build_path'' \<mapsto> PyStr ''D:/tools/msbuild'',
      ''nunit_path'' \<mapsto> PyStr ''D:/tools/nunit'',
      ''nuget_path'' \<mapsto> PyStr ''D:/tools/nuget'']"

section \<open>Reading a trace\<close>

fun commands :: "event list \<Rightarrow> string list" where
  "commands [] = []"
| "commands (Run c # es) = c # commands es"
| "commands (Rmtree p # es) = commands es"

fun removals :: "event list \<Rightarrow> string list" where
  "removals [] = []"
| "removals (Run c # es) = removals es"
| "removals (Rmtree p # es) = p # removals es"

text \<open>
  \<open>all_succeed w tr cs\<close>: run one after the other from trace \<open>tr\<close>, each command of
  \<open>cs\<close> exits with status zero in world \<open>w\<close>.
\<close>

fun all_succeed :: "world \<Rightarrow> event list \<Rightarrow> string list \<Rightarrow> bool" where
  "all_succeed w tr [] = True"
| "all_succeed w tr (c # cs) = (run_ok w tr c \<and> all_succeed w (tr @ [Run c]) cs)"

text \<open>Worlds to run the tasks in: one where nothing fails, one where everything does.\<close>

definition fair_world :: world where
  "fair_world = \<lparr>run_ok = (\<lambda>tr c. True), rm_ok = (\<lambda>tr p. True)\<rparr>"

definition failing_world :: world where
  "failing_world = \<lparr>run_ok = (\<lambda>tr c. False), rm_ok = (\<lambda>tr p. False)\<rparr>"

text \<open>
  In \<open>flaky_world n\<close> the one command that fails is the one run when \<open>n\<close> commands
  have been run before it; no directory removal goes well.
\<close>

definition flaky_world :: "nat \<Rightarrow> world" where
  "flaky_world n =
     \<lparr>run_ok = (\<lambda>tr c. length (commands tr) \<noteq> n), rm_ok = (\<lambda>tr p. False)\<rparr>"

section \<open>Basic facts\<close>

lemma and_then_Inr: "f tr = (t1, Inr u) \<Longrightarrow> and_then f g tr = g t1"
  by (simp add: and_then_def)

lemma and_then_Inl: "f tr = (t1, Inl e) \<Longrightarrow> and_then f g tr = (t1, Inl e)"
  by (simp add: and_then_def)

lemma commands_append: "commands (xs @ ys) = commands xs @ commands ys"
  by (induction xs rule: commands.induct) simp_all

lemma removals_append: "removals (xs @ ys) = removals xs @ removals ys"
  by (induction xs rule: removals.induct) simp_all

lemma local_eq:
  "local w c tr = (tr @ [Run c], if run_ok w tr c then Inr () else Inl (SystemExit c))"
  by (simp add: local_def)

section \<open>The build command\<close>

lemma ms_build_exe:
  "path_join ms_build_path ''MSBuild.exe'' = ms_build_path @ backslash @ ''MSBuild.exe''"
  by (simp add: path_join_def ms_build_path_def backslash_def is_sep_def)

lemma build_eq:
  "build w = local w (dquote @ ms_build_path @ backslash @ ''MSBuild.exe'' @ dquote
     @ '' /m /t:Build /p:Configuration=Debug ua_utilities.sln'')"
  by (simp add: build_def ms_build_def ms_build_exe cmd_add_def solution_def Let_def)

lemma release_eq:
  "release w = local w (dquote @ ms_build_path @ backslash @ ''MSBuild.exe'' @ dquote
     @ '' /m /t:Build /p:Configuration=Release ua_utilities.sln'')"
  by (simp add: release_def ms_build_def ms_build_exe cmd_add_def solution_def Let_def)

lemma ms_build_clean_eq:
  "ms_build w solution ''Clean'' None ''/m'' =
     local w (dquote @ ms_build_path @ backslash @ ''MSBuild.exe'' @ dquote
       @ '' /m /t:Clean ua_utilities.sln'')"
  by (simp add: ms_build_def ms_build_exe cmd_add_def solution_def Let_def)

text \<open>
  C2. For the solution \<^verbatim>\<open>ua_utilities\<close> and the configuration \<^verbatim>\<open>Debug\<close>, which is how
  \<open>build\<close> calls \<open>ms_build\<close>, the command handed to the shell is exactly the quoted
  path of \<^verbatim>\<open>MSBuild.exe\<close> under \<open>ms_build_path\<close>, then \<^verbatim>\<open>/m\<close>, \<^verbatim>\<open>/t:Build\<close>,
  \<^verbatim>\<open>/p:Configuration=Debug\<close> and \<^verbatim>\<open>ua_utilities.sln\<close>, in this order, one space apart;
  it is the one call \<open>build\<close> makes.
\<close>

theorem build_command:
  "build w tr =
     local w (dquote @ ms_build_path @ backslash @ ''MSBuild.exe'' @ dquote
       @ '' /m /t:Build /p:Configuration=Debug ua_utilities.sln'') tr
   \<and> fst (build w tr) =
     tr @ [Run (dquote @ ms_build_path @ backslash @ ''MSBuild.exe'' @ dquote
       @ '' /m /t:Build /p:Configuration=Debug ua_utilities.sln'')]"
  by (simp add: build_eq local_def)

section \<open>The clean task\<close>

lemma clean_dirs_obj_bin:
  "clean_dirs w p [''obj'', ''bin''] tr =
     (tr @ [Rmtree (path_join p ''obj''), Rmtree (path_join p ''bin'')], Inr ())"
  by (simp add: and_then_def rmtree_def skip_def)

lemma clean_loop_eq:
  "clean_loop w ps tr =
     (tr @ concat (map (\<lambda>p. [Rmtree (path_join p ''obj''), Rmtree (path_join p ''bin'')]) ps),
      Inr ())"
proof (induction ps arbitrary: tr)
  case Nil
  show ?case by (simp add: skip_def)
next
  case (Cons p ps)
  show ?case
    by (simp only: clean_loop.simps and_then_Inr [OF clean_dirs_obj_bin] Cons.IH) simp
qed

lemma project_dirs:
  "concat (map (\<lambda>p. [Rmtree (path_join p ''obj''), Rmtree (path_join p ''bin'')]) projects)
   = concat (map (\<lambda>p. [Rmtree (p @ backslash @ ''obj''), Rmtree (p @ backslash @ ''bin'')])
       (impl_projects @ test_projects))"
  by (simp add: projects_def impl_projects_def test_projects_def path_join_def is_sep_def
      backslash_def)

lemma clean_eq:
  "clean w tr =
     (if run_ok w tr (dquote @ ms_build_path @ backslash @ ''MSBuild.exe'' @ dquote
           @ '' /m /t:Clean ua_utilities.sln'')
      then (tr @ Run (dquote @ ms_build_path @ backslash @ ''MSBuild.exe'' @ dquote
                 @ '' /m /t:Clean ua_utilities.sln'')
               # concat (map (\<lambda>p. [Rmtree (p @ backslash @ ''obj''),
                                     Rmtree (p @ backslash @ ''bin'')])
                    (impl_projects @ test_projects)),
            Inr ())
      else (tr @ [Run (dquote @ ms_build_path @ backslash @ ''MSBuild.exe'' @ dquote
                   @ '' /m /t:Clean ua_utilities.sln'')],
            Inl (SystemExit (dquote @ ms_build_path @ backslash @ ''MSBuild.exe'' @ dquote
                   @ '' /m /t:Clean ua_utilities.sln''))))"
  by (simp add: clean_def ms_build_clean_eq and_then_def local_def clean_loop_eq project_dirs)

text \<open>
  C3. \<open>clean\<close> first runs the build tool with target \<^verbatim>\<open>Clean\<close> on the solution. When
  that command succeeds, the task goes on to call \<^verbatim>\<open>rmtree\<close> on the \<^verbatim>\<open>obj\<close> and then
  the \<^verbatim>\<open>bin\<close> folder of every project, implementation projects first, test projects
  after, each folder exactly once (no path occurs twice), and returns normally
  whatever the outcome of the removals: the world \<open>w\<close> is arbitrary, so any of the
  directories may be absent. (A failing \<^verbatim>\<open>Clean\<close> command aborts the task before the
  loop, as lemma \<open>clean_eq\<close> records.)
\<close>

theorem clean_removes_obj_and_bin:
  assumes "run_ok w tr (dquote @ ms_build_path @ backslash @ ''MSBuild.exe'' @ dquote
             @ '' /m /t:Clean ua_utilities.sln'')"
  shows "clean w tr =
           (tr @ Run (dquote @ ms_build_path @ backslash @ ''MSBuild.exe'' @ dquote
                   @ '' /m /t:Clean ua_utilities.sln'')
                 # concat (map (\<lambda>p. [Rmtree (p @ backslash @ ''obj''),
                                       Rmtree (p @ backslash @ ''bin'')])
                      (impl_projects @ test_projects)),
            Inr ())
         \<and> distinct (concat (map (\<lambda>p. [Rmtree (p @ backslash @ ''obj''),
                                       Rmtree (p @ backslash @ ''bin'')])
                      (impl_projects @ test_projects)))"
proof
  from assms show "clean w tr =
           (tr @ Run (dquote @ ms_build_path @ backslash @ ''MSBuild.exe'' @ dquote
                   @ '' /m /t:Clean ua_utilities.sln'')
                 # concat (map (\<lambda>p. [Rmtree (p @ backslash @ ''obj''),
                                       Rmtree (p @ backslash @ ''bin'')])
                      (impl_projects @ test_projects)),
            Inr ())"
    by (simp add: clean_eq)
next
  show "distinct (concat (map (\<lambda>p. [Rmtree (p @ backslash @ ''obj''),
                                       Rmtree (p @ backslash @ ''bin'')])
                      (impl_projects @ test_projects)))"
    by (simp add: impl_projects_def test_projects_def backslash_def)
qed

theorem clean_removes_obj_and_bin_witness:
  "run_ok (flaky_world 1) [] (dquote @ ms_build_path @ backslash @ ''MSBuild.exe'' @ dquote
             @ '' /m /t:Clean ua_utilities.sln'')
   \<and> snd (clean (flaky_world 1) []) = Inr ()
   \<and> removals (fst (clean (flaky_world 1) [])) =
       [''MultiClientConsole'' @ backslash @ ''obj'', ''MultiClientConsole'' @ backslash @ ''bin'',
        ''ServerConsole'' @ backslash @ ''obj'', ''ServerConsole'' @ backslash @ ''bin'',
        ''OfficeConsole'' @ backslash @ ''obj'', ''OfficeConsole'' @ backslash @ ''bin'',
        ''UaclServer'' @ backslash @ ''obj'', ''UaclServer'' @ backslash @ ''bin'',
        ''UaclClient'' @ backslash @ ''obj'', ''UaclClient'' @ backslash @ ''bin'',
        ''UaclUtils'' @ backslash @ ''obj'', ''UaclUtils'' @ backslash @ ''bin'',
        ''TestServerConsole'' @ backslash @ ''obj'', ''TestServerConsole'' @ backslash @ ''bin'',
        ''TestOfficeConsole'' @ backslash @ ''obj'', ''TestOfficeConsole'' @ backslash @ ''bin'',
        ''TestUaclClient'' @ backslash @ ''obj'', ''TestUaclClient'' @ backslash @ ''bin'',
        ''TestUaclUtils'' @ backslash @ ''obj'', ''TestUaclUtils'' @ backslash @ ''bin'']"
proof -
  have ok: "run_ok (flaky_world 1) [] (dquote @ ms_build_path @ backslash @ ''MSBuild.exe''
              @ dquote @ '' /m /t:Clean ua_utilities.sln'')"
    by (simp add: flaky_world_def)
  from clean_removes_obj_and_bin [OF ok] ok show ?thesis
    by (simp add: impl_projects_def test_projects_def)
qed

text \<open>
  C7. With configuration \<^verbatim>\<open>Release\<close>, as \<open>release\<close> calls it, the command that
  \<open>ms_build\<close> builds contains \<^verbatim>\<open>/p:Configuration=Release\<close>. Called for \<open>clean\<close> (target
  \<^verbatim>\<open>Clean\<close>, no configuration), the command, the only one \<open>clean\<close> runs, contains no
  \<^verbatim>\<open>/p:Configuration=\<close> anywhere.
\<close>

theorem configuration_segment:
  "fst (release w tr) =
     tr @ [Run (dquote @ ms_build_path @ backslash @ ''MSBuild.exe'' @ dquote
             @ '' /m /t:Build /p:Configuration=Release ua_utilities.sln'')]
   \<and> sublist ''/p:Configuration=Release''
       (dquote @ ms_build_path @ backslash @ ''MSBuild.exe'' @ dquote
         @ '' /m /t:Build /p:Configuration=Release ua_utilities.sln'')
   \<and> commands (fst (clean w tr)) =
       commands tr @ [dquote @ ms_build_path @ backslash @ ''MSBuild.exe'' @ dquote
                       @ '' /m /t:Clean ua_utilities.sln'']
   \<and> \<not> sublist ''/p:Configuration=''
       (dquote @ ms_build_path @ backslash @ ''MSBuild.exe'' @ dquote
         @ '' /m /t:Clean ua_utilities.sln'')"
proof (intro conjI)
  show "fst (release w tr) =
     tr @ [Run (dquote @ ms_build_path @ backslash @ ''MSBuild.exe'' @ dquote
             @ '' /m /t:Build /p:Configuration=Release ua_utilities.sln'')]"
    by (simp add: release_eq local_def)
  show "sublist ''/p:Configuration=Release''
       (dquote @ ms_build_path @ backslash @ ''MSBuild.exe'' @ dquote
         @ '' /m /t:Build /p:Configuration=Release ua_utilities.sln'')"
    by (simp add: dquote_def ms_build_path_def backslash_def sublist_Cons_right)
  show "commands (fst (clean w tr)) =
       commands tr @ [dquote @ ms_build_path @ backslash @ ''MSBuild.exe'' @ dquote
                       @ '' /m /t:Clean ua_utilities.sln'']"
    by (simp add: clean_eq commands_append impl_projects_def test_projects_def)
  show "\<not> sublist ''/p:Configuration=''
       (dquote @ ms_build_path @ backslash @ ''MSBuild.exe'' @ dquote
         @ '' /m /t:Clean ua_utilities.sln'')"
    by (simp add: dquote_def ms_build_path_def backslash_def sublist_Cons_right)
qed

section \<open>Package restore\<close>

lemma update_packages_loop_ok:
  "all_succeed w tr (map (restore_cmd pm) ps) \<Longrightarrow>
   update_packages_loop w pm ps tr = (tr @ map (\<lambda>p. Run (restore_cmd pm p)) ps, Inr ())"
proof (induction ps arbitrary: tr)
  case Nil
  show ?case by (simp add: skip_def)
next
  case (Cons p ps)
  from Cons.prems have ok: "run_ok w tr (restore_cmd pm p)"
    and rest: "all_succeed w (tr @ [Run (restore_cmd pm p)]) (map (restore_cmd pm) ps)"
    by simp_all
  from ok have "local w (restore_cmd pm p) tr = (tr @ [Run (restore_cmd pm p)], Inr ())"
    by (simp add: local_def)
  then show ?case
    by (simp add: and_then_Inr Cons.IH [OF rest])
qed

lemma update_packages_loop_fail:
  "all_succeed w tr (map (restore_cmd pm) pre) \<Longrightarrow>
   \<not> run_ok w (tr @ map (\<lambda>p. Run (restore_cmd pm p)) pre) (restore_cmd pm p) \<Longrightarrow>
   update_packages_loop w pm (pre @ p # post) tr =
     (tr @ map (\<lambda>p. Run (restore_cmd pm p)) (pre @ [p]), Inl (SystemExit (restore_cmd pm p)))"
proof (induction pre arbitrary: tr)
  case Nil
  then show ?case by (simp add: and_then_def local_def)
next
  case (Cons q pre)
  from Cons.prems(1) have ok: "run_ok w tr (restore_cmd pm q)"
    and rest: "all_succeed w (tr @ [Run (restore_cmd pm q)]) (map (restore_cmd pm) pre)"
    by simp_all
  from Cons.prems(2)
  have bad: "\<not> run_ok w ((tr @ [Run (restore_cmd pm q)]) @ map (\<lambda>p. Run (restore_cmd pm p)) pre)
               (restore_cmd pm p)"
    by simp
  from ok have "local w (restore_cmd pm q) tr = (tr @ [Run (restore_cmd pm q)], Inr ())"
    by (simp add: local_def)
  then show ?case
    by (simp add: and_then_Inr Cons.IH [OF rest bad])
qed

lemma nuget_exe: "path_join nuget_path ''nuget.exe'' = nuget_path @ backslash @ ''nuget.exe''"
  by (simp add: path_join_def nuget_path_def backslash_def is_sep_def)

lemma restore_cmds:
  "map (restore_cmd pm) projects =
   map (\<lambda>p. dquote @ pm @ dquote @ '' install -OutputDirectory packages ''
              @ p @ backslash @ ''packages.config'')
     (impl_projects @ test_projects)"
  by (simp add: projects_def impl_projects_def test_projects_def restore_cmd_def path_join_def
      is_sep_def backslash_def)

lemma restore_runs:
  "map (\<lambda>p. Run (restore_cmd pm p)) projects =
   map (\<lambda>p. Run (dquote @ pm @ dquote @ '' install -OutputDirectory packages ''
              @ p @ backslash @ ''packages.config''))
     (impl_projects @ test_projects)"
  by (simp add: projects_def impl_projects_def test_projects_def restore_cmd_def path_join_def
      is_sep_def backslash_def)

text \<open>
  C6. When each restore command succeeds in its turn, \<open>update_packages\<close> makes exactly
  one call per project of the full project list, implementation projects first and test
  projects after, in list order and nothing else: for project \<open>p\<close> the quoted
  \<^verbatim>\<open>nuget.exe\<close> under \<open>nuget_path\<close> with the arguments
  \<^verbatim>\<open>install -OutputDirectory packages\<close> and the \<^verbatim>\<open>packages.config\<close> inside the folder
  of \<open>p\<close> (joined by \<^verbatim>\<open>os.path.join\<close>, so with the backslash of the platform the
  script is written for). What happens when a restore fails is C8.
\<close>

theorem update_packages_one_restore_per_project:
  assumes "all_succeed w tr
             (map (\<lambda>p. dquote @ nuget_path @ backslash @ ''nuget.exe'' @ dquote
                        @ '' install -OutputDirectory packages ''
                        @ p @ backslash @ ''packages.config'')
                (impl_projects @ test_projects))"
  shows "update_packages w tr =
           (tr @ map (\<lambda>p. Run (dquote @ nuget_path @ backslash @ ''nuget.exe'' @ dquote
                              @ '' install -OutputDirectory packages ''
                              @ p @ backslash @ ''packages.config''))
                   (impl_projects @ test_projects),
            Inr ())"
proof -
  from assms
  have "all_succeed w tr (map (restore_cmd (nuget_path @ backslash @ ''nuget.exe'')) projects)"
    by (simp only: restore_cmds append_assoc)
  then have "update_packages_loop w (nuget_path @ backslash @ ''nuget.exe'') projects tr =
      (tr @ map (\<lambda>p. Run (restore_cmd (nuget_path @ backslash @ ''nuget.exe'') p)) projects,
       Inr ())"
    by (rule update_packages_loop_ok)
  then show ?thesis
    by (simp only: update_packages_def Let_def nuget_exe restore_runs append_assoc)
qed

theorem update_packages_one_restore_per_project_witness:
  "all_succeed fair_world []
     (map (\<lambda>p. dquote @ nuget_path @ backslash @ ''nuget.exe'' @ dquote
                @ '' install -OutputDirectory packages ''
                @ p @ backslash @ ''packages.config'')
        (impl_projects @ test_projects))
   \<and> length (commands (fst (update_packages fair_world []))) = 10
   \<and> commands (fst (update_packages fair_world [])) ! 9 =
       dquote @ nuget_path @ backslash @ ''nuget.exe'' @ dquote
       @ '' install -OutputDirectory packages TestUaclUtils'' @ backslash @ ''packages.config''
   \<and> snd (update_packages fair_world []) = Inr ()"
proof -
  have ok: "all_succeed fair_world []
     (map (\<lambda>p. dquote @ nuget_path @ backslash @ ''nuget.exe'' @ dquote
                @ '' install -OutputDirectory packages ''
                @ p @ backslash @ ''packages.config'')
        (impl_projects @ test_projects))"
    by (simp add: fair_world_def impl_projects_def test_projects_def)
  from update_packages_one_restore_per_project [OF ok] ok show ?thesis
    by (simp add: impl_projects_def test_projects_def)
qed

text \<open>
  C8. Let the project list be \<open>pre @ p # post\<close>, let the restore commands for \<open>pre\<close>
  succeed in turn and the one for \<open>p\<close> fail. Then \<open>update_packages\<close> does not catch the
  failure: it ends with the \<^verbatim>\<open>SystemExit\<close> of that command. Its trace is the calls for
  \<open>pre\<close>, which stay as made, and the failed call for \<open>p\<close>; nothing is run for \<open>post\<close>.
\<close>

theorem update_packages_failure_propagates:
  assumes "projects = pre @ p # post"
    and "all_succeed w tr (map (restore_cmd (path_join nuget_path ''nuget.exe'')) pre)"
    and "\<not> run_ok w
             (tr @ map (\<lambda>q. Run (restore_cmd (path_join nuget_path ''nuget.exe'') q)) pre)
             (restore_cmd (path_join nuget_path ''nuget.exe'') p)"
  shows "update_packages w tr =
           (tr @ map (\<lambda>q. Run (restore_cmd (path_join nuget_path ''nuget.exe'') q)) (pre @ [p]),
            Inl (SystemExit (restore_cmd (path_join nuget_path ''nuget.exe'') p)))"
  using update_packages_loop_fail [OF assms(2) assms(3), of post]
  by (simp add: update_packages_def Let_def assms(1))

theorem update_packages_failure_propagates_witness:
  "projects = [''MultiClientConsole'', ''ServerConsole''] @ ''OfficeConsole''
      # [''UaclServer'', ''UaclClient'', ''UaclUtils'', ''TestServerConsole'',
         ''TestOfficeConsole'', ''TestUaclClient'', ''TestUaclUtils'']
   \<and> all_succeed (flaky_world 2) []
       (map (restore_cmd (path_join nuget_path ''nuget.exe''))
          [''MultiClientConsole'', ''ServerConsole''])
   \<and> \<not> run_ok (flaky_world 2)
       ([] @ map (\<lambda>q. Run (restore_cmd (path_join nuget_path ''nuget.exe'') q))
          [''MultiClientConsole'', ''ServerConsole''])
       (restore_cmd (path_join nuget_path ''nuget.exe'') ''OfficeConsole'')
   \<and> update_packages (flaky_world 2) [] =
       ([Run (restore_cmd (path_join nuget_path ''nuget.exe'') ''MultiClientConsole''),
         Run (restore_cmd (path_join nuget_path ''nuget.exe'') ''ServerConsole''),
         Run (restore_cmd (path_join nuget_path ''nuget.exe'') ''OfficeConsole'')],
        Inl (SystemExit (restore_cmd (path_join nuget_path ''nuget.exe'') ''OfficeConsole'')))"
proof -
  have split: "projects = [''MultiClientConsole'', ''ServerConsole''] @ ''OfficeConsole''
      # [''UaclServer'', ''UaclClient'', ''UaclUtils'', ''TestServerConsole'',
         ''TestOfficeConsole'', ''TestUaclClient'', ''TestUaclUtils'']"
    by (simp add: projects_def impl_projects_def test_projects_def)
  have ok: "all_succeed (flaky_world 2) []
       (map (restore_cmd (path_join nuget_path ''nuget.exe''))
          [''MultiClientConsole'', ''ServerConsole''])"
    by (simp add: flaky_world_def)
  have bad: "\<not> run_ok (flaky_world 2)
       ([] @ map (\<lambda>q. Run (restore_cmd (path_join nuget_path ''nuget.exe'') q))
          [''MultiClientConsole'', ''ServerConsole''])
       (restore_cmd (path_join nuget_path ''nuget.exe'') ''OfficeConsole'')"
    by (simp add: flaky_world_def)
  from update_packages_failure_propagates [OF split ok bad] split ok bad show ?thesis
    by simp
qed

section \<open>The test task\<close>

lemma test_impl_eq:
  "test_impl w path tr =
     local w (dquote @ path_join nunit_path ''nunit3-console.exe'' @ dquote @ '' ''
       @ path @ ''.dll'') tr"
  by (simp add: test_impl_def Let_def)

lemma quoted_not_stop: "dquote @ rest \<noteq> stop_cmd"
  by (simp add: dquote_def stop_cmd_def)

lemma start_sc_not_stop: "start_sc_cmd \<noteq> stop_cmd"
  by (simp add: start_sc_cmd_def stop_cmd_def)

text \<open>The loop never runs the stop script, and what it raises is the exit of a test runner.\<close>

lemma test_loop_no_stop:
  "count_list (commands (fst (test_loop w ts tr))) stop_cmd = count_list (commands tr) stop_cmd"
proof (induction ts arbitrary: tr)
  case Nil
  show ?case by (simp add: skip_def)
next
  case (Cons t ts)
  show ?case
    by (simp add: and_then_def test_impl_eq local_def Let_def Cons.IH commands_append
        quoted_not_stop)
qed

lemma test_loop_error:
  "snd (test_loop w ts tr) = Inl e \<Longrightarrow> \<exists>rest. e = SystemExit (dquote @ rest)"
proof (induction ts arbitrary: tr)
  case Nil
  then show ?case by (simp add: skip_def)
next
  case (Cons t ts)
  then show ?case
    by (auto simp add: and_then_def test_impl_eq local_def Let_def split: if_splits)
qed

lemma test_eq:
  "test w tr =
     (if run_ok w tr start_sc_cmd
      then stop w (fst (test_loop w test_projects (tr @ [Run start_sc_cmd])))
      else (tr @ [Run start_sc_cmd], Inl (SystemExit start_sc_cmd)))"
  by (simp add: test_def and_then_def start_sc_def local_def try_except_pass_def
      split: prod.splits)

text \<open>
  C1, as amended. In an execution of \<open>test\<close> where starting the server application
  succeeds, the stop script is run exactly once more than before the task, whatever the
  test runner invocations do. Where starting the server application fails, the task
  aborts at that point and the stop script is not run.
\<close>

theorem test_stops_once_after_start:
  "count_list (commands (fst (test w tr))) stop_cmd =
     (if run_ok w tr start_sc_cmd then Suc (count_list (commands tr) stop_cmd)
      else count_list (commands tr) stop_cmd)"
  by (simp add: test_eq stop_def local_def commands_append test_loop_no_stop start_sc_not_stop)

text \<open>
  C1 as stated fails: in the world where every command fails, so that starting the server
  application fails, \<open>test\<close> runs from an empty trace without ever running the stop script.
\<close>

theorem test_start_fails_no_stop:
  "count_list (commands (fst (test failing_world []))) stop_cmd = 0"
  by (simp add: test_eq failing_world_def start_sc_not_stop)

text \<open>
  C5. Let the server application start and let some test runner invocation of the loop
  fail, so that the loop raises \<open>e\<close>. Then \<open>e\<close> is not what \<open>test\<close> returns: the error is
  dropped, the stop script is run, and if that succeeds \<open>test\<close> returns normally, failed
  tests or not.
\<close>

theorem test_discards_test_failures:
  assumes "run_ok w tr start_sc_cmd"
    and "snd (test_loop w test_projects (tr @ [Run start_sc_cmd])) = Inl e"
  shows "snd (test w tr) \<noteq> Inl e
         \<and> fst (test w tr) =
             fst (test_loop w test_projects (tr @ [Run start_sc_cmd])) @ [Run stop_cmd]
         \<and> (run_ok w (fst (test_loop w test_projects (tr @ [Run start_sc_cmd]))) stop_cmd
              \<longrightarrow> snd (test w tr) = Inr ())"
proof -
  from test_loop_error [OF assms(2)] obtain rest where "e = SystemExit (dquote @ rest)" ..
  then have "e \<noteq> SystemExit stop_cmd"
    by (simp add: quoted_not_stop)
  with assms(1) show ?thesis
    by (simp add: test_eq stop_def local_def)
qed

theorem test_discards_test_failures_witness:
  "run_ok (flaky_world 1) [] start_sc_cmd
   \<and> snd (test_loop (flaky_world 1) test_projects ([] @ [Run start_sc_cmd])) =
       Inl (SystemExit (dquote @ nunit_path @ backslash @ ''nunit3-console.exe'' @ dquote
              @ '' .'' @ backslash @ ''TestServerConsole'' @ backslash @ ''bin'' @ backslash
              @ ''Debug'' @ backslash @ ''TestServerConsole.dll''))
   \<and> run_ok (flaky_world 1)
       (fst (test_loop (flaky_world 1) test_projects ([] @ [Run start_sc_cmd]))) stop_cmd
   \<and> snd (test (flaky_world 1) []) = Inr ()"
proof -
  have started: "run_ok (flaky_world 1) [] start_sc_cmd"
    by (simp add: flaky_world_def)
  have loop: "test_loop (flaky_world 1) test_projects ([] @ [Run start_sc_cmd]) =
      ([Run start_sc_cmd,
        Run (dquote @ nunit_path @ backslash @ ''nunit3-console.exe'' @ dquote
              @ '' .'' @ backslash @ ''TestServerConsole'' @ backslash @ ''bin'' @ backslash
              @ ''Debug'' @ backslash @ ''TestServerConsole.dll'')],
       Inl (SystemExit (dquote @ nunit_path @ backslash @ ''nunit3-console.exe'' @ dquote
              @ '' .'' @ backslash @ ''TestServerConsole'' @ backslash @ ''bin'' @ backslash
              @ ''Debug'' @ backslash @ ''TestServerConsole.dll'')))"
    by (simp add: test_projects_def and_then_def test_impl_eq local_def flaky_world_def
        path_joins_def path_join_def is_sep_def backslash_def nunit_path_def)
  have raised: "snd (test_loop (flaky_world 1) test_projects ([] @ [Run start_sc_cmd])) =
       Inl (SystemExit (dquote @ nunit_path @ backslash @ ''nunit3-console.exe'' @ dquote
              @ '' .'' @ backslash @ ''TestServerConsole'' @ backslash @ ''bin'' @ backslash
              @ ''Debug'' @ backslash @ ''TestServerConsole.dll''))"
    by (simp only: loop snd_conv)
  have stopped: "run_ok (flaky_world 1)
       (fst (test_loop (flaky_world 1) test_projects ([] @ [Run start_sc_cmd]))) stop_cmd"
    by (simp only: loop fst_conv) (simp add: flaky_world_def)
  from test_discards_test_failures [OF started raised] started raised stopped
  show ?thesis by blast
qed

text \<open>
  C10. Only what the loop raises is dropped. When the server application has started and
  the stop script, run after the loop, fails, \<open>test\<close> ends with the \<^verbatim>\<open>SystemExit\<close> of
  the stop script; and when starting the server application fails, \<open>test\<close> ends with the
  \<^verbatim>\<open>SystemExit\<close> of that command.
\<close>

theorem test_stop_failure_propagates:
  "(run_ok w tr start_sc_cmd
      \<and> \<not> run_ok w (fst (test_loop w test_projects (tr @ [Run start_sc_cmd]))) stop_cmd
    \<longrightarrow> snd (test w tr) = Inl (SystemExit stop_cmd))
   \<and> (\<not> run_ok w tr start_sc_cmd \<longrightarrow> snd (test w tr) = Inl (SystemExit start_sc_cmd))"
  by (simp add: test_eq stop_def local_def)

lemma test_loop_flaky_5:
  "fst (test_loop (flaky_world 5) test_projects ([] @ [Run start_sc_cmd])) =
     [Run start_sc_cmd,
      Run (dquote @ nunit_path @ backslash @ ''nunit3-console.exe'' @ dquote
              @ '' .'' @ backslash @ ''TestServerConsole'' @ backslash @ ''bin'' @ backslash
              @ ''Debug'' @ backslash @ ''TestServerConsole.dll''),
      Run (dquote @ nunit_path @ backslash @ ''nunit3-console.exe'' @ dquote
              @ '' .'' @ backslash @ ''TestOfficeConsole'' @ backslash @ ''bin'' @ backslash
              @ ''Debug'' @ backslash @ ''TestOfficeConsole.dll''),
      Run (dquote @ nunit_path @ backslash @ ''nunit3-console.exe'' @ dquote
              @ '' .'' @ backslash @ ''TestUaclClient'' @ backslash @ ''bin'' @ backslash
              @ ''Debug'' @ backslash @ ''TestUaclClient.dll''),
      Run (dquote @ nunit_path @ backslash @ ''nunit3-console.exe'' @ dquote
              @ '' .'' @ backslash @ ''TestUaclUtils'' @ backslash @ ''bin'' @ backslash
              @ ''Debug'' @ backslash @ ''TestUaclUtils.dll'')]"
  by (simp add: test_projects_def and_then_def test_impl_eq local_def flaky_world_def skip_def
        path_joins_def path_join_def is_sep_def backslash_def nunit_path_def)

theorem test_stop_failure_propagates_witness:
  "run_ok (flaky_world 5) [] start_sc_cmd
   \<and> \<not> run_ok (flaky_world 5)
         (fst (test_loop (flaky_world 5) test_projects ([] @ [Run start_sc_cmd]))) stop_cmd
   \<and> snd (test (flaky_world 5) []) = Inl (SystemExit stop_cmd)
   \<and> \<not> run_ok (flaky_world 0) [] start_sc_cmd
   \<and> snd (test (flaky_world 0) []) = Inl (SystemExit start_sc_cmd)"
proof -
  have started: "run_ok (flaky_world 5) [] start_sc_cmd"
    by (simp add: flaky_world_def)
  have stop_fails: "\<not> run_ok (flaky_world 5)
         (fst (test_loop (flaky_world 5) test_projects ([] @ [Run start_sc_cmd]))) stop_cmd"
    by (simp only: test_loop_flaky_5) (simp add: flaky_world_def)
  have start_fails: "\<not> run_ok (flaky_world 0) [] start_sc_cmd"
    by (simp add: flaky_world_def)
  from test_stop_failure_propagates [of "flaky_world 5" "[]"]
    test_stop_failure_propagates [of "flaky_world 0" "[]"]
    started stop_fails start_fails
  show ?thesis by blast
qed

section \<open>Task sequences\<close>

text \<open>
  C4. \<open>rebuild\<close> is \<open>clean\<close>, then \<open>update_env\<close> from the trace \<open>clean\<close> left, then
  \<open>build\<close> from the trace \<open>update_env\<close> left; \<open>restart\<close> is \<open>stop\<close>, then \<open>rebuild\<close>,
  then \<open>start\<close>, chained the same way. When a step raises, the sequence ends with the
  trace and the error of that step: no later step adds a call.
\<close>

theorem rebuild_restart_in_order:
  "(snd (clean w tr) = Inl e \<longrightarrow> rebuild w tr = clean w tr)
   \<and> (clean w tr = (t1, Inr ()) \<and> snd (update_env w t1) = Inl e
        \<longrightarrow> rebuild w tr = update_env w t1)
   \<and> (clean w tr = (t1, Inr ()) \<and> update_env w t1 = (t2, Inr ())
        \<longrightarrow> rebuild w tr = build w t2)
   \<and> (snd (stop w tr) = Inl e \<longrightarrow> restart w tr = stop w tr)
   \<and> (stop w tr = (s1, Inr ()) \<and> snd (rebuild w s1) = Inl e
        \<longrightarrow> restart w tr = rebuild w s1)
   \<and> (stop w tr = (s1, Inr ()) \<and> rebuild w s1 = (s2, Inr ())
        \<longrightarrow> restart w tr = start w s2)"
  by (auto simp add: rebuild_def restart_def and_then_def split: prod.splits sum.splits)

lemma all_succeed_fair: "all_succeed fair_world tr cs"
  by (induction cs arbitrary: tr) (simp_all add: fair_world_def)

lemma update_env_eq:
  "update_env w tr = update_packages_loop w (path_join nuget_path ''nuget.exe'') projects tr"
  by (simp add: update_env_def update_packages_def Let_def)

lemma update_env_fair:
  "update_env fair_world tr =
     (tr @ map (\<lambda>p. Run (restore_cmd (path_join nuget_path ''nuget.exe'') p)) projects, Inr ())"
  by (simp only: update_env_eq update_packages_loop_ok [OF all_succeed_fair])

lemma update_env_first_fails:
  "\<not> run_ok w tr (restore_cmd (path_join nuget_path ''nuget.exe'') ''MultiClientConsole'') \<Longrightarrow>
   update_env w tr =
     (tr @ [Run (restore_cmd (path_join nuget_path ''nuget.exe'') ''MultiClientConsole'')],
      Inl (SystemExit (restore_cmd (path_join nuget_path ''nuget.exe'') ''MultiClientConsole'')))"
  by (simp add: update_env_eq projects_def impl_projects_def and_then_def local_def)

lemma commands_dirs:
  "commands (concat (map (\<lambda>p. [Rmtree (f p), Rmtree (g p)]) ps)) = []"
  by (induction ps) simp_all

lemma commands_runs: "commands (map (\<lambda>p. Run (f p)) ps) = map f ps"
  by (induction ps) simp_all

lemma clean_failing:
  "clean failing_world tr = (tr @ [Run (dquote @ ms_build_path @ backslash @ ''MSBuild.exe'' @ dquote @ '' /m /t:Clean ua_utilities.sln'')], Inl (SystemExit (dquote @ ms_build_path @ backslash @ ''MSBuild.exe'' @ dquote @ '' /m /t:Clean ua_utilities.sln'')))"
  by (simp add: clean_eq failing_world_def)

lemma clean_flaky_ok:
  "length (commands tr) \<noteq> n \<Longrightarrow> clean (flaky_world n) tr = (tr @ Run (dquote @ ms_build_path @ backslash @ ''MSBuild.exe'' @ dquote @ '' /m /t:Clean ua_utilities.sln'') # concat (map (\<lambda>p. [Rmtree (p @ backslash @ ''obj''), Rmtree (p @ backslash @ ''bin'')]) (impl_projects @ test_projects)), Inr ())"
  by (simp add: clean_eq flaky_world_def)

lemma clean_flaky_fails:
  "length (commands tr) = n \<Longrightarrow>
   clean (flaky_world n) tr = (tr @ [Run (dquote @ ms_build_path @ backslash @ ''MSBuild.exe'' @ dquote @ '' /m /t:Clean ua_utilities.sln'')], Inl (SystemExit (dquote @ ms_build_path @ backslash @ ''MSBuild.exe'' @ dquote @ '' /m /t:Clean ua_utilities.sln'')))"
  by (simp add: clean_eq flaky_world_def)

lemma clean_fair:
  "clean fair_world tr = (tr @ Run (dquote @ ms_build_path @ backslash @ ''MSBuild.exe'' @ dquote @ '' /m /t:Clean ua_utilities.sln'') # concat (map (\<lambda>p. [Rmtree (p @ backslash @ ''obj''), Rmtree (p @ backslash @ ''bin'')]) (impl_projects @ test_projects)), Inr ())"
  by (simp add: clean_eq fair_world_def)

lemma build_fair: "build fair_world tr = (tr @ [Run (dquote @ ms_build_path @ backslash @ ''MSBuild.exe'' @ dquote @ '' /m /t:Build /p:Configuration=Debug ua_utilities.sln'')], Inr ())"
  by (simp add: build_eq local_def fair_world_def)

lemma stop_eq:
  "stop w tr =
     (tr @ [Run stop_cmd], if run_ok w tr stop_cmd then Inr () else Inl (SystemExit stop_cmd))"
  by (simp add: stop_def local_def)

lemma start_eq:
  "start w tr =
     (tr @ [Run start_cmd], if run_ok w tr start_cmd then Inr () else Inl (SystemExit start_cmd))"
  by (simp add: start_def local_def)

theorem rebuild_restart_in_order_witness:
  "snd (clean failing_world []) = Inl (SystemExit (dquote @ ms_build_path @ backslash @ ''MSBuild.exe'' @ dquote @ '' /m /t:Clean ua_utilities.sln''))
   \<and> rebuild failing_world [] = ([Run (dquote @ ms_build_path @ backslash @ ''MSBuild.exe'' @ dquote @ '' /m /t:Clean ua_utilities.sln'')], Inl (SystemExit (dquote @ ms_build_path @ backslash @ ''MSBuild.exe'' @ dquote @ '' /m /t:Clean ua_utilities.sln'')))
   \<and> snd (clean (flaky_world 1) []) = Inr ()
   \<and> snd (update_env (flaky_world 1) (fst (clean (flaky_world 1) []))) =
       Inl (SystemExit (restore_cmd (path_join nuget_path ''nuget.exe'') ''MultiClientConsole''))
   \<and> commands (fst (rebuild (flaky_world 1) [])) = [(dquote @ ms_build_path @ backslash @ ''MSBuild.exe'' @ dquote @ '' /m /t:Clean ua_utilities.sln''), restore_cmd (path_join nuget_path ''nuget.exe'') ''MultiClientConsole'']
   \<and> snd (rebuild (flaky_world 1) []) = Inl (SystemExit (restore_cmd (path_join nuget_path ''nuget.exe'') ''MultiClientConsole''))
   \<and> snd (clean fair_world []) = Inr ()
   \<and> snd (update_env fair_world (fst (clean fair_world []))) = Inr ()
   \<and> commands (fst (rebuild fair_world [])) = (dquote @ ms_build_path @ backslash @ ''MSBuild.exe'' @ dquote @ '' /m /t:Clean ua_utilities.sln'') # map (restore_cmd (path_join nuget_path ''nuget.exe'')) projects @ [(dquote @ ms_build_path @ backslash @ ''MSBuild.exe'' @ dquote @ '' /m /t:Build /p:Configuration=Debug ua_utilities.sln'')]
   \<and> snd (rebuild fair_world []) = Inr ()
   \<and> snd (stop failing_world []) = Inl (SystemExit stop_cmd)
   \<and> restart failing_world [] = ([Run stop_cmd], Inl (SystemExit stop_cmd))
   \<and> snd (stop (flaky_world 1) []) = Inr ()
   \<and> snd (rebuild (flaky_world 1) (fst (stop (flaky_world 1) []))) = Inl (SystemExit (dquote @ ms_build_path @ backslash @ ''MSBuild.exe'' @ dquote @ '' /m /t:Clean ua_utilities.sln''))
   \<and> restart (flaky_world 1) [] = ([Run stop_cmd, Run (dquote @ ms_build_path @ backslash @ ''MSBuild.exe'' @ dquote @ '' /m /t:Clean ua_utilities.sln'')], Inl (SystemExit (dquote @ ms_build_path @ backslash @ ''MSBuild.exe'' @ dquote @ '' /m /t:Clean ua_utilities.sln'')))
   \<and> snd (stop fair_world []) = Inr ()
   \<and> snd (rebuild fair_world (fst (stop fair_world []))) = Inr ()
   \<and> commands (fst (restart fair_world [])) =
       stop_cmd # (dquote @ ms_build_path @ backslash @ ''MSBuild.exe'' @ dquote @ '' /m /t:Clean ua_utilities.sln'') # map (restore_cmd (path_join nuget_path ''nuget.exe'')) projects @ [(dquote @ ms_build_path @ backslash @ ''MSBuild.exe'' @ dquote @ '' /m /t:Build /p:Configuration=Debug ua_utilities.sln''), start_cmd]
   \<and> snd (restart fair_world []) = Inr ()"
proof -
  note order = rebuild_restart_in_order
  let ?dirs = "concat (map (\<lambda>p. [Rmtree (p @ backslash @ ''obj''), Rmtree (p @ backslash @ ''bin'')]) (impl_projects @ test_projects))"
  let ?restores = "map (\<lambda>p. Run (restore_cmd (path_join nuget_path ''nuget.exe'') p)) projects"
  have cl_fail: "clean failing_world [] = ([Run (dquote @ ms_build_path @ backslash @ ''MSBuild.exe'' @ dquote @ '' /m /t:Clean ua_utilities.sln'')], Inl (SystemExit (dquote @ ms_build_path @ backslash @ ''MSBuild.exe'' @ dquote @ '' /m /t:Clean ua_utilities.sln'')))"
    using clean_failing [of "[]"] by simp
  have a: "rebuild failing_world [] = clean failing_world []"
    by (rule order [THEN conjunct1, rule_format]) (simp only: cl_fail snd_conv)
  have cl_flaky: "clean (flaky_world 1) [] = (Run (dquote @ ms_build_path @ backslash @ ''MSBuild.exe'' @ dquote @ '' /m /t:Clean ua_utilities.sln'') # ?dirs, Inr ())"
    using clean_flaky_ok [of "[]" 1] by simp
  have up_flaky: "update_env (flaky_world 1) (Run (dquote @ ms_build_path @ backslash @ ''MSBuild.exe'' @ dquote @ '' /m /t:Clean ua_utilities.sln'') # ?dirs) =
      ((Run (dquote @ ms_build_path @ backslash @ ''MSBuild.exe'' @ dquote @ '' /m /t:Clean ua_utilities.sln'') # ?dirs) @ [Run (restore_cmd (path_join nuget_path ''nuget.exe'') ''MultiClientConsole'')],
       Inl (SystemExit (restore_cmd (path_join nuget_path ''nuget.exe'') ''MultiClientConsole'')))"
    by (rule update_env_first_fails) (simp add: flaky_world_def commands_append commands_dirs)
  have b: "rebuild (flaky_world 1) [] = update_env (flaky_world 1) (Run (dquote @ ms_build_path @ backslash @ ''MSBuild.exe'' @ dquote @ '' /m /t:Clean ua_utilities.sln'') # ?dirs)"
    by (rule order [THEN conjunct2, THEN conjunct1, rule_format])
      (simp only: cl_flaky up_flaky snd_conv simp_thms)
  have cl_fair: "clean fair_world tr = (tr @ Run (dquote @ ms_build_path @ backslash @ ''MSBuild.exe'' @ dquote @ '' /m /t:Clean ua_utilities.sln'') # ?dirs, Inr ())" for tr
    by (rule clean_fair)
  have c: "rebuild fair_world tr = build fair_world ((tr @ Run (dquote @ ms_build_path @ backslash @ ''MSBuild.exe'' @ dquote @ '' /m /t:Clean ua_utilities.sln'') # ?dirs) @ ?restores)" for tr
    by (rule order [THEN conjunct2, THEN conjunct2, THEN conjunct1, rule_format])
      (simp only: cl_fair update_env_fair simp_thms)
  have st_fail: "stop failing_world [] = ([Run stop_cmd], Inl (SystemExit stop_cmd))"
    by (simp add: stop_eq failing_world_def)
  have d: "restart failing_world [] = stop failing_world []"
    by (rule order [THEN conjunct2, THEN conjunct2, THEN conjunct2, THEN conjunct1, rule_format])
      (simp only: st_fail snd_conv)
  have st_flaky: "stop (flaky_world 1) [] = ([Run stop_cmd], Inr ())"
    by (simp add: stop_eq flaky_world_def)
  have cl_flaky2: "clean (flaky_world 1) [Run stop_cmd] =
      ([Run stop_cmd, Run (dquote @ ms_build_path @ backslash @ ''MSBuild.exe'' @ dquote @ '' /m /t:Clean ua_utilities.sln'')], Inl (SystemExit (dquote @ ms_build_path @ backslash @ ''MSBuild.exe'' @ dquote @ '' /m /t:Clean ua_utilities.sln'')))"
    using clean_flaky_fails [of "[Run stop_cmd]" 1] by simp
  have e1: "rebuild (flaky_world 1) [Run stop_cmd] = clean (flaky_world 1) [Run stop_cmd]"
    by (rule order [THEN conjunct1, rule_format]) (simp only: cl_flaky2 snd_conv)
  have e: "restart (flaky_world 1) [] = rebuild (flaky_world 1) [Run stop_cmd]"
    by (rule order [THEN conjunct2, THEN conjunct2, THEN conjunct2, THEN conjunct2,
          THEN conjunct1, rule_format])
      (simp only: st_flaky e1 cl_flaky2 snd_conv simp_thms)
  have st_fair: "stop fair_world [] = ([Run stop_cmd], Inr ())"
    by (simp add: stop_eq fair_world_def)
  have rb_fair: "rebuild fair_world tr =
      (((tr @ Run (dquote @ ms_build_path @ backslash @ ''MSBuild.exe'' @ dquote @ '' /m /t:Clean ua_utilities.sln'') # ?dirs) @ ?restores) @ [Run (dquote @ ms_build_path @ backslash @ ''MSBuild.exe'' @ dquote @ '' /m /t:Build /p:Configuration=Debug ua_utilities.sln'')], Inr ())" for tr
    by (simp only: c build_fair)
  have f: "restart fair_world [] =
      start fair_world ((([Run stop_cmd] @ Run (dquote @ ms_build_path @ backslash @ ''MSBuild.exe'' @ dquote @ '' /m /t:Clean ua_utilities.sln'') # ?dirs) @ ?restores) @ [Run (dquote @ ms_build_path @ backslash @ ''MSBuild.exe'' @ dquote @ '' /m /t:Build /p:Configuration=Debug ua_utilities.sln'')])"
    by (rule order [THEN conjunct2, THEN conjunct2, THEN conjunct2, THEN conjunct2,
          THEN conjunct2, rule_format])
      (simp only: st_fair rb_fair simp_thms)
  have start_fair: "start fair_world tr = (tr @ [Run start_cmd], Inr ())" for tr
    by (simp add: start_eq fair_world_def)
  show ?thesis
    by (simp only: a b d e e1 f cl_fail cl_flaky cl_flaky2 cl_fair up_flaky update_env_fair
        rb_fair st_fail st_flaky st_fair start_fair fst_conv snd_conv)
      (simp add: commands_append commands_dirs commands_runs)
qed

section \<open>The local override module\<close>

lemma load_fabfile_tool_paths:
  "load_fabfile l ''ms_build_path'' = Some (PyStr ms_build_path)
   \<and> load_fabfile l ''nunit_path'' = Some (PyStr nunit_path)
   \<and> load_fabfile l ''nuget_path'' = Some (PyStr nuget_path)"
  by (simp add: load_fabfile_def Let_def)

lemma load_fabfile_projects:
  "load_fabfile l ''projects'' = Some (PyList projects)
   \<and> load_fabfile l ''solution'' = Some (PyStr solution)"
  by (simp add: load_fabfile_def Let_def py_add_def projects_def)

text \<open>
  C9. Loading the file with no local module goes through and leaves the default tool
  paths in the namespace. Loading it with a local module that sets the three tool paths
  leaves the default tool paths in the namespace as well: the assignments of lines 18 to
  20 run after the import and rebind the names, so nothing the local module says about
  the tool paths reaches the tasks.
\<close>

theorem fabfile_local_paths_overwritten:
  "load_fabfile None ''ms_build_path'' = Some (PyStr ms_build_path)
   \<and> load_fabfile None ''nunit_path'' = Some (PyStr nunit_path)
   \<and> load_fabfile None ''nuget_path'' = Some (PyStr nuget_path)
   \<and> local_override ''ms_build_path'' = Some (PyStr ''D:/tools/msbuild'')
   \<and> load_fabfile (Some local_override) ''ms_build_path'' = Some (PyStr ms_build_path)
   \<and> load_fabfile (Some local_override) ''nunit_path'' = Some (PyStr nunit_path)
   \<and> load_fabfile (Some local_override) ''nuget_path'' = Some (PyStr nuget_path)
   \<and> PyStr ms_build_path \<noteq> PyStr ''D:/tools/msbuild''"
  by (simp add: load_fabfile_tool_paths local_override_def ms_build_path_def)

end
